theory Spec2Isabelle
  imports Main "HOL-Library.AList"
begin

section \<open>JavaScript values\<close>

text \<open>
  The row store of \<^verbatim>\<open>packages/wholly-sheet\<close> is dynamically typed: a cell, a field of
  a row and a response of the remote service are all of TypeScript type \<^verbatim>\<open>any\<close>. The
  model therefore has one type of values. Its limits:
  \<^item> \<open>Num\<close> holds the integral Numbers. Rendering and parsing them in decimal is exact
    for the safe integers; Numbers with a fraction, NaN and the infinities are floating
    point and have no value here. \<^verbatim>\<open>parseFloat\<close> is a parameter (see \<open>runtime\<close>).
  \<^item> A Date object is represented by what this code reads from it: the text of
    \<^verbatim>\<open>toString()\<close> and the text of \<^verbatim>\<open>toISOString()\<close>, which is \<open>None\<close> for an
    Invalid Date (\<^verbatim>\<open>toISOString\<close> raises RangeError on it). \<open>NoDate\<close> is the
    module's one shared object \<^verbatim>\<open>noDate\<close>, which the code recognises by identity.
    \<^verbatim>\<open>new Date(value)\<close> is a parameter.
  \<^item> An object is the ordered list of its own enumerable properties. Names inherited
    from a prototype (methods, members of \<^verbatim>\<open>Object.prototype\<close>) and the numeric
    ordering of integer-like keys are not modelled.
\<close>

datatype jsdate = NoDate | DateObj string "string option"

datatype jsval =
    Undefined
  | Null
  | Bool bool
  | Num int
  | Str string
  | DateV jsdate
  | Obj "(string \<times> jsval) list"
  | Arr "jsval list"

type_synonym props = "(string \<times> jsval) list"

datatype jstype = TUndefined | TObject | TBoolean | TNumber | TString

datatype error = SheetError string | TypeError string | RangeError string

text \<open>The built-ins whose results are floating point or implementation-defined.\<close>

record runtime =
  parseFloat :: "string \<Rightarrow> jsval"
  newDate :: "jsval \<Rightarrow> jsdate"

fun truthy :: "jsval \<Rightarrow> bool" where
  "truthy Undefined = False"
| "truthy Null = False"
| "truthy (Bool b) = b"
| "truthy (Num n) = (n \<noteq> 0)"
| "truthy (Str s) = (s \<noteq> [])"
| "truthy (DateV d) = True"
| "truthy (Obj ps) = True"
| "truthy (Arr xs) = True"

fun js_typeof :: "jsval \<Rightarrow> jstype" where
  "js_typeof Undefined = TUndefined"
| "js_typeof Null = TObject"
| "js_typeof (Bool b) = TBoolean"
| "js_typeof (Num n) = TNumber"
| "js_typeof (Str s) = TString"
| "js_typeof (DateV d) = TObject"
| "js_typeof (Obj ps) = TObject"
| "js_typeof (Arr xs) = TObject"

fun instanceof_Date :: "jsval \<Rightarrow> bool" where
  "instanceof_Date (DateV d) = True"
| "instanceof_Date v = False"

text \<open>
  \<^verbatim>\<open>a === b\<close>. Primitives compare by value. Dates, objects and arrays compare by
  identity; the model carries no identities: \<^verbatim>\<open>noDate\<close> is identical to itself, and
  any other two objects are taken to be different objects.
\<close>

fun strict_eq :: "jsval \<Rightarrow> jsval \<Rightarrow> bool" where
  "strict_eq Undefined Undefined = True"
| "strict_eq Null Null = True"
| "strict_eq (Bool a) (Bool b) = (a = b)"
| "strict_eq (Num a) (Num b) = (a = b)"
| "strict_eq (Str a) (Str b) = (a = b)"
| "strict_eq (DateV NoDate) (DateV NoDate) = True"
| "strict_eq a b = False"

subsection \<open>Decimal text of integers\<close>

definition digit_char :: "nat \<Rightarrow> char" where
  "digit_char d = ''0123456789'' ! d"

definition is_digit :: "char \<Rightarrow> bool" where
  "is_digit c = (c \<in> set ''0123456789'')"

definition digit_value :: "char \<Rightarrow> nat" where
  "digit_value c = of_char c - 48"

function nat_digits :: "nat \<Rightarrow> string" where
  "nat_digits n = (if n < 10 then [digit_char n] else nat_digits (n div 10) @ [digit_char (n mod 10)])"
  by pat_completeness auto
termination
  by (relation "measure id") auto

text \<open>\<^verbatim>\<open>Number.prototype.toString\<close> on an integral Number.\<close>

definition int_toString :: "int \<Rightarrow> string" where
  "int_toString i = (if i < 0 then CHR ''-'' # nat_digits (nat (- i)) else nat_digits (nat i))"

definition digits_value :: "string \<Rightarrow> nat" where
  "digits_value ds = foldl (\<lambda>acc c. 10 * acc + digit_value c) 0 ds"

text \<open>\<^verbatim>\<open>Array.prototype.join()\<close> with the default separator, on texts.\<close>

fun join_comma :: "string list \<Rightarrow> string" where
  "join_comma [] = []"
| "join_comma [x] = x"
| "join_comma (x # y # ys) = x @ '','' @ join_comma (y # ys)"

definition noDate_text :: string where
  "noDate_text = ''Tue Apr 20 -271821 00:00:00 GMT+0000 (Coordinated Universal Time)''"

text \<open>
  \<^verbatim>\<open>String(v)\<close>, which is what a template literal, a property key and, on a value that
  is neither undefined nor null, \<^verbatim>\<open>v.toString()\<close> produce. An array joins its elements;
  undefined and null elements give the empty text.
\<close>

fun js_String :: "jsval \<Rightarrow> string" where
  "js_String Undefined = ''undefined''"
| "js_String Null = ''null''"
| "js_String (Bool b) = (if b then ''true'' else ''false'')"
| "js_String (Num n) = int_toString n"
| "js_String (Str s) = s"
| "js_String (DateV NoDate) = noDate_text"
| "js_String (DateV (DateObj txt isotxt)) = txt"
| "js_String (Obj ps) = ''[object Object]''"
| "js_String (Arr xs) =
     join_comma (map (\<lambda>x. if x = Undefined \<or> x = Null then [] else js_String x) xs)"

subsection \<open>Objects as ordered property lists\<close>

text \<open>\<^verbatim>\<open>obj[key]\<close>: the own property, or undefined.\<close>

definition get_prop :: "props \<Rightarrow> string \<Rightarrow> jsval" where
  "get_prop obj key = (case map_of obj key of Some v \<Rightarrow> v | None \<Rightarrow> Undefined)"

text \<open>\<^verbatim>\<open>obj[key] = v\<close>: overwrites in place, or adds the property at the end.\<close>

definition set_prop :: "props \<Rightarrow> string \<Rightarrow> jsval \<Rightarrow> props" where
  "set_prop obj key v = AList.update key v obj"

text \<open>\<^verbatim>\<open>key in obj\<close>, on own properties.\<close>

definition has_prop :: "props \<Rightarrow> string \<Rightarrow> bool" where
  "has_prop obj key = (key \<in> set (map fst obj))"

fun string_entries :: "nat \<Rightarrow> string \<Rightarrow> props" where
  "string_entries i [] = []"
| "string_entries i (c # cs) = (int_toString (int i), Str [c]) # string_entries (Suc i) cs"

text \<open>\<^verbatim>\<open>Object.entries(v)\<close> on a value that is neither undefined nor null.\<close>

fun array_entries :: "nat \<Rightarrow> jsval list \<Rightarrow> props" where
  "array_entries i [] = []"
| "array_entries i (x # xs) = (int_toString (int i), x) # array_entries (Suc i) xs"

fun entries :: "jsval \<Rightarrow> props" where
  "entries (Obj ps) = ps"
| "entries (Str s) = string_entries 0 s"
| "entries (Arr xs) = array_entries 0 xs"
| "entries v = []"

section \<open>Row Codec (SheetSDK.ts)\<close>

text \<open>\<^verbatim>\<open>NIL\<close>, the text of an empty cell: the one character U+0000.\<close>

definition NIL :: string where
  "NIL = [CHR 0x00]"

text \<open>
  \<^verbatim>\<open>stringer\<close> (SheetSDK.ts, lines 53-60). \<^verbatim>\<open>toISOString\<close> raises RangeError on an
  Invalid Date.
\<close>

fun stringer :: "jsval \<Rightarrow> error + string" where
  "stringer Undefined = Inr NIL"
| "stringer Null = Inr NIL"
| "stringer (DateV NoDate) = Inr NIL"
| "stringer (DateV (DateObj txt isotxt)) =
     (case isotxt of None \<Rightarrow> Inl (RangeError ''Invalid time value'') | Some s \<Rightarrow> Inr s)"
| "stringer v = Inr (js_String v)"

text \<open>
  The pattern \<^verbatim>\<open>isInt\<close> of \<^verbatim>\<open>typeCast\<close> (line 121), matched against the whole
  text: an optional sign, a digit from 1 to 9 and any digits after it, or the single
  digit 0.
\<close>

definition nonzero_led :: "string \<Rightarrow> bool" where
  "nonzero_led s = (case s of [] \<Rightarrow> False | c # cs \<Rightarrow> c \<in> set ''123456789'' \<and> list_all is_digit cs)"

definition isInt :: "string \<Rightarrow> bool" where
  "isInt s = (s = ''0'' \<or>
     (case s of [] \<Rightarrow> False
      | c # cs \<Rightarrow> if c = CHR ''+'' \<or> c = CHR ''-'' then nonzero_led cs else nonzero_led s))"

text \<open>\<^verbatim>\<open>parseInt(s, 10)\<close> on a text that matches the pattern.\<close>

definition parseInt :: "string \<Rightarrow> int" where
  "parseInt s = (case s of [] \<Rightarrow> 0
     | c # cs \<Rightarrow> if c = CHR ''-'' then - int (digits_value cs)
                else if c = CHR ''+'' then int (digits_value cs)
                else int (digits_value s))"

definition to_lower :: "char \<Rightarrow> char" where
  "to_lower c = (case map_of (zip ''ABCDEFGHIJKLMNOPQRSTUVWXYZ'' ''abcdefghijklmnopqrstuvwxyz'') c of
     Some l \<Rightarrow> l | None \<Rightarrow> c)"

text \<open>
  Modelled from the spec: \<^verbatim>\<open>boolDefault\<close> of the package \<^verbatim>\<open>@looker/sdk-rtl\<close>, which
  \<^verbatim>\<open>typeCast\<close> imports; its file is not among the sources. The spec: booleans use a
  permissive true/false parser defaulting to false on ambiguity. The spellings read
  as true and as false, in any letter case, are this model's reading of permissive.
\<close>

definition isTrue :: "jsval \<Rightarrow> bool" where
  "isTrue v = (map to_lower (js_String v) \<in> set [''true'', ''t'', ''yes'', ''y'', ''1''])"

definition isFalse :: "jsval \<Rightarrow> bool" where
  "isFalse v = (map to_lower (js_String v) \<in> set [''false'', ''f'', ''no'', ''n'', ''0''])"

definition boolDefault :: "jsval \<Rightarrow> bool \<Rightarrow> bool" where
  "boolDefault v defaultBool =
     (if v = Undefined then defaultBool
      else if isTrue v then True
      else if isFalse v then False
      else defaultBool)"

text \<open>
  \<^verbatim>\<open>this.toString()\<close> of a row: \<^verbatim>\<open>RowModel\<close> declares no \<^verbatim>\<open>toString\<close>, so it is
  the one of \<^verbatim>\<open>Object.prototype\<close>.
\<close>

definition toString_this :: "props \<Rightarrow> string" where
  "toString_this this = ''[object Object]''"

text \<open>\<^verbatim>\<open>RowModel.typeCast\<close> (SheetSDK.ts, lines 115-134).\<close>

definition typeCast :: "runtime \<Rightarrow> props \<Rightarrow> string \<Rightarrow> jsval \<Rightarrow> jsval" where
  "typeCast rt this key v =
     (if \<not> truthy v then Undefined
      else if js_typeof (get_prop this key) = TString then Str (js_String v)
      else if js_typeof (get_prop this key) = TNumber then
        (if isInt (js_String v) then Num (parseInt (js_String v))
         else parseFloat rt (js_String v))
      else if js_typeof (get_prop this key) = TBoolean then Bool (boolDefault v False)
      else if instanceof_Date (get_prop this key) then DateV (newDate rt v)
      else Str (toString_this this))"

text \<open>\<^verbatim>\<open>RowModel.keys\<close> and \<^verbatim>\<open>RowModel.header\<close>: the keys without the first, \<^verbatim>\<open>row\<close>.\<close>

definition keys :: "props \<Rightarrow> string list" where
  "keys this = map fst this"

definition header :: "props \<Rightarrow> string list" where
  "header this = drop 1 (keys this)"

text \<open>
  \<^verbatim>\<open>RowModel.assign\<close> (SheetSDK.ts, lines 136-156). By position, a value beyond the
  last header key is stored under the key \<^verbatim>\<open>keys[index]\<close>, which is undefined and so
  names the property \<^verbatim>\<open>"undefined"\<close>.
\<close>

fun assign_by_position :: "runtime \<Rightarrow> string list \<Rightarrow> nat \<Rightarrow> jsval list \<Rightarrow> props \<Rightarrow> props" where
  "assign_by_position rt ks i [] this = this"
| "assign_by_position rt ks i (v # vs) this =
     (let key = (if i < length ks then ks ! i else ''undefined'')
      in assign_by_position rt ks (Suc i) vs (set_prop this key (typeCast rt this key v)))"

fun assign_by_name :: "runtime \<Rightarrow> props \<Rightarrow> props \<Rightarrow> props" where
  "assign_by_name rt [] this = this"
| "assign_by_name rt ((key, v) # es) this =
     assign_by_name rt es
       (if has_prop this key then set_prop this key (typeCast rt this key v) else this)"

definition assign :: "runtime \<Rightarrow> props \<Rightarrow> jsval \<Rightarrow> props" where
  "assign rt this vals =
     (if truthy vals then
        (case vals of
           Arr vs \<Rightarrow> assign_by_position rt (header this) 0 vs this
         | _ \<Rightarrow> assign_by_name rt (entries vals) this)
      else this)"

section \<open>Tab Indexer (SheetSDK.ts)\<close>




record ITabTable =
  table_header :: "string list"
  table_rows :: "props list"









section \<open>Remote Table Client (SheetSDK.ts)\<close>

text \<open>
  \<^verbatim>\<open>SheetSDK.request\<close> sends one HTTP request and returns the parsed response, or
  raises \<^verbatim>\<open>SheetError\<close>. The transport is outside this code: a request is recorded
  by what \<^verbatim>\<open>updateRow\<close> and \<^verbatim>\<open>createRow\<close> put into it (the tab, the row of the
  range \<^verbatim>\<open>A<row>:end\<close> and the values of the body), and the service is a function
  from the request to its result.
\<close>

datatype remote_call =
    UpdateRow string jsval "string list"
  | AppendRow string jsval "string list"

type_synonym transport = "remote_call \<Rightarrow> error + jsval"

text \<open>\<^verbatim>\<open>response.updates\<close>: reading a property of undefined or null raises TypeError.\<close>

fun member :: "jsval \<Rightarrow> string \<Rightarrow> error + jsval" where
  "member Undefined k = Inl (TypeError (''Cannot read properties of undefined (reading '' @ k @ '')''))"
| "member Null k = Inl (TypeError (''Cannot read properties of null (reading '' @ k @ '')''))"
| "member (Obj ps) k = Inr (get_prop ps k)"
| "member v k = Inr Undefined"

definition updateRow :: "transport \<Rightarrow> string \<Rightarrow> jsval \<Rightarrow> string list \<Rightarrow> error + jsval" where
  "updateRow request tab row vals = request (UpdateRow tab row vals)"

definition couldnt_update :: "string \<Rightarrow> jsval \<Rightarrow> string" where
  "couldnt_update tab row = ''Couldn'' @ [CHR 0x27] @ ''t update '' @ tab @ '' row '' @ js_String row"

definition createRow :: "transport \<Rightarrow> string \<Rightarrow> jsval \<Rightarrow> string list \<Rightarrow> error + jsval" where
  "createRow request tab row vals =
     (case request (AppendRow tab row vals) of
        Inl e \<Rightarrow> Inl e
      | Inr response \<Rightarrow>
          (case member response ''updates'' of
             Inl e \<Rightarrow> Inl e
           | Inr updates \<Rightarrow>
               if \<not> truthy updates then Inl (SheetError (couldnt_update tab row))
               else
                 (case member updates ''updatedRanges'' of
                    Inl e \<Rightarrow> Inl e
                  | Inr updatedRanges \<Rightarrow>
                      if \<not> truthy updatedRanges then Inl (SheetError (couldnt_update tab row))
                      else Inr response)))"

section \<open>Row Store (WhollySheet.ts)\<close>

text \<open>
  The fields of a \<^verbatim>\<open>WhollySheet\<close>. \<^verbatim>\<open>sheets\<close>, the client, is the \<open>transport\<close>
  passed to \<open>create\<close> and \<open>update_sheet\<close>. A row is the property list of a
  \<^verbatim>\<open>RowModel\<close>, its first key being \<^verbatim>\<open>row\<close>. The index is an object used as a
  dictionary: a property list from key texts to rows.
\<close>

record WhollySheet =
  name :: string
  table :: ITabTable
  keyColumn :: string
  rows :: "props list"
  index :: "(string \<times> props) list"

text \<open>The result of a store operation: the requests sent, what the call returns or
  raises, and the store afterwards.\<close>

record outcome =
  issued :: "remote_call list"
  result :: "error + props"
  store :: WhollySheet

definition sheet_header :: "WhollySheet \<Rightarrow> string list" where
  "sheet_header s = table_header (table s)"

definition nextRow :: "WhollySheet \<Rightarrow> int" where
  "nextRow s = int (length (rows s))"

text \<open>\<^verbatim>\<open>toAT\<close> (lines 100-103): a row is an object, and an object is truthy.\<close>

definition toAT :: "props option \<Rightarrow> props option" where
  "toAT v = (case v of Some r \<Rightarrow> Some r | None \<Rightarrow> None)"

text \<open>\<^verbatim>\<open>checkHeader\<close> (lines 105-116).\<close>

definition checkHeader :: "WhollySheet \<Rightarrow> error + bool" where
  "checkHeader s =
     (if length (rows s) = 0 then Inr True
      else
        (let row = rows s ! 0;
             rowHeader = join_comma (header row);
             tableHeader = join_comma (table_header (table s))
         in if tableHeader \<noteq> rowHeader
            then Inl (SheetError (''Expected table.header to be '' @ rowHeader @ '' not '' @ tableHeader))
            else Inr True))"

text \<open>
  \<^verbatim>\<open>createIndex\<close> (lines 126-131). The key of the property is the text of the
  row's key value; a later row with the same key overwrites the entry.
\<close>

definition index_of :: "string \<Rightarrow> props list \<Rightarrow> (string \<times> props) list" where
  "index_of keyCol rs = foldl (\<lambda>idx r. AList.update (js_String (get_prop r keyCol)) r idx) [] rs"

definition createIndex :: "WhollySheet \<Rightarrow> WhollySheet" where
  "createIndex s = s\<lparr>index := index_of (keyColumn s) (rows s)\<rparr>"

text \<open>
  The constructor (lines 74-84). \<^verbatim>\<open>typeRows\<close> is abstract in \<^verbatim>\<open>WhollySheet\<close>: it is
  a parameter.
\<close>

definition new_WhollySheet ::
    "(props list \<Rightarrow> props list) \<Rightarrow> string \<Rightarrow> ITabTable \<Rightarrow> string \<Rightarrow> error + WhollySheet" where
  "new_WhollySheet typeRows nm tbl keyCol =
     (let s0 = \<lparr>name = nm, table = tbl, keyColumn = keyCol,
                 rows = typeRows (table_rows tbl), index = []\<rparr>
      in case checkHeader s0 of
           Inl e \<Rightarrow> Inl e
         | Inr ok \<Rightarrow>
             (let s1 = createIndex s0
              in case checkHeader s1 of Inl e \<Rightarrow> Inl e | Inr ok' \<Rightarrow> Inr s1))"

text \<open>\<^verbatim>\<open>WhollySheet.values\<close> (lines 133-139): the cell texts in header order.\<close>

fun values_in_order :: "string list \<Rightarrow> props \<Rightarrow> error + string list" where
  "values_in_order [] model = Inr []"
| "values_in_order (h # hs) model =
     (case stringer (get_prop model h) of
        Inl e \<Rightarrow> Inl e
      | Inr cell \<Rightarrow>
          (case values_in_order hs model of Inl e \<Rightarrow> Inl e | Inr cells \<Rightarrow> Inr (cell # cells)))"

definition values_sheet :: "WhollySheet \<Rightarrow> props \<Rightarrow> error + string list" where
  "values_sheet s model = values_in_order (sheet_header s) model"

text \<open>\<^verbatim>\<open>checkId\<close> (lines 147-152).\<close>

definition checkId :: "WhollySheet \<Rightarrow> props \<Rightarrow> error + unit" where
  "checkId s model =
     (if \<not> truthy (get_prop model (keyColumn s))
      then Inl (SheetError ([CHR 0x22] @ keyColumn s @ [CHR 0x22] @ '' must be assigned for row '' @
                  js_String (get_prop model ''row'')))
      else Inr ())"

text \<open>
  \<^verbatim>\<open>create\<close> (lines 154-167). \<^verbatim>\<open>model.assign(result)\<close> changes the record passed
  in, which is returned; the record is taken not to be one of the store's own row
  objects. The rows of the store are not touched: the \<^verbatim>\<open>push\<close> is commented out.
\<close>

definition create :: "runtime \<Rightarrow> transport \<Rightarrow> WhollySheet \<Rightarrow> props \<Rightarrow> outcome" where
  "create rt request s model =
     (case checkId s model of
        Inl e \<Rightarrow> \<lparr>issued = [], result = Inl e, store = s\<rparr>
      | Inr ok \<Rightarrow>
          if \<not> strict_eq (get_prop model ''row'') (Num 0)
          then \<lparr>issued = [],
                result = Inl (SheetError ([CHR 0x22] @ js_String (get_prop model ''id'') @ [CHR 0x22] @
                  '' row must be 0, not '' @ js_String (get_prop model ''row'') @ '' to create'')),
                store = s\<rparr>
          else
            (case values_sheet s model of
               Inl e \<Rightarrow> \<lparr>issued = [], result = Inl e, store = s\<rparr>
             | Inr vals \<Rightarrow>
                 (case createRow request (name s) (Num (nextRow s)) vals of
                    Inl e \<Rightarrow> \<lparr>issued = [AppendRow (name s) (Num (nextRow s)) vals],
                               result = Inl e, store = s\<rparr>
                  | Inr res \<Rightarrow> \<lparr>issued = [AppendRow (name s) (Num (nextRow s)) vals],
                               result = Inr (assign rt model res),
                               store = createIndex s\<rparr>)))"

text \<open>
  \<^verbatim>\<open>this.rows[model.row]\<close>: the property key is the text of \<^verbatim>\<open>model.row\<close>; it is
  an element of the array when that text is the decimal numeral, without sign or
  leading zero, of a position below the length. Anything else reads undefined (or a
  member of the array object that is no row).
\<close>

definition array_index :: "jsval \<Rightarrow> nat option" where
  "array_index v =
     (let k = js_String v in if k = ''0'' \<or> nonzero_led k then Some (digits_value k) else None)"

definition row_at :: "props list \<Rightarrow> jsval \<Rightarrow> nat option" where
  "row_at rs v = (case array_index v of None \<Rightarrow> None | Some i \<Rightarrow> if i < length rs then Some i else None)"

text \<open>
  \<^verbatim>\<open>update\<close> (lines 169-181). When \<^verbatim>\<open>this.rows[model.row]\<close> is no row, calling
  its \<^verbatim>\<open>assign\<close> raises TypeError, after the request has been sent.
\<close>

definition update_sheet :: "runtime \<Rightarrow> transport \<Rightarrow> WhollySheet \<Rightarrow> props \<Rightarrow> outcome" where
  "update_sheet rt request s model =
     (case checkId s model of
        Inl e \<Rightarrow> \<lparr>issued = [], result = Inl e, store = s\<rparr>
      | Inr ok \<Rightarrow>
          if \<not> truthy (get_prop model ''row'')
          then \<lparr>issued = [],
                result = Inl (SheetError ([CHR 0x22] @ js_String (get_prop model ''id'') @ [CHR 0x22] @
                  '' row must be > 0 to update'')),
                store = s\<rparr>
          else
            (case values_sheet s model of
               Inl e \<Rightarrow> \<lparr>issued = [], result = Inl e, store = s\<rparr>
             | Inr vals \<Rightarrow>
                 (case updateRow request (name s) (get_prop model ''row'') vals of
                    Inl e \<Rightarrow> \<lparr>issued = [UpdateRow (name s) (get_prop model ''row'') vals],
                               result = Inl e, store = s\<rparr>
                  | Inr res \<Rightarrow>
                      (case row_at (rows s) (get_prop model ''row'') of
                         None \<Rightarrow> \<lparr>issued = [UpdateRow (name s) (get_prop model ''row'') vals],
                                   result = Inl (TypeError ''Cannot read properties of undefined (reading assign)''),
                                   store = s\<rparr>
                       | Some i \<Rightarrow>
                           (let s' = createIndex (s\<lparr>rows := (rows s)[i := assign rt (rows s ! i) res]\<rparr>)
                            in \<lparr>issued = [UpdateRow (name s) (get_prop model ''row'') vals],
                                result = Inr (rows s' ! i),
                                store = s'\<rparr>)))))"

text \<open>\<^verbatim>\<open>save\<close> (lines 141-145).\<close>

definition save :: "runtime \<Rightarrow> transport \<Rightarrow> WhollySheet \<Rightarrow> props \<Rightarrow> outcome" where
  "save rt request s model =
     (if truthy (get_prop model ''row'') then update_sheet rt request s model
      else create rt request s model)"

text \<open>
  \<^verbatim>\<open>find\<close> (lines 183-195). \<open>columnName\<close> is optional: \<open>None\<close> is a call without
  it. \<^verbatim>\<open>columnName || this.keyColumn\<close> also takes the key column for the empty name.
\<close>

definition find_sheet :: "WhollySheet \<Rightarrow> jsval \<Rightarrow> string option \<Rightarrow> props option" where
  "find_sheet s v columnName =
     (if \<not> truthy v then None
      else
        (let given = (case columnName of None \<Rightarrow> False | Some c \<Rightarrow> c \<noteq> []);
             key0 = (if given then the columnName else keyColumn s);
             key = (if js_typeof v = TNumber \<and> \<not> given then ''row'' else key0)
         in if columnName = Some (keyColumn s)
            then toAT (map_of (index s) (js_String v))
            else toAT (List.find (\<lambda>r. strict_eq (get_prop r key) v) (rows s))))"

section \<open>Properties: what the claims speak of\<close>

subsection \<open>The codec round trip\<close>




subsection \<open>The linear scan and the state of the index\<close>

text \<open>
  The linear scan of the spec: the first row, in the order of the rows list, whose
  field \<open>c\<close> equals the value, or nothing.
\<close>

fun linear_scan :: "props list \<Rightarrow> string \<Rightarrow> jsval \<Rightarrow> props option" where
  "linear_scan [] c v = None"
| "linear_scan (r # rs) c v = (if strict_eq (get_prop r c) v then Some r else linear_scan rs c v)"


subsection \<open>Blank grid rows\<close>



section \<open>Examples\<close>

text \<open>
  A runtime for the examples. Its Date constructor knows one date; its
  \<^verbatim>\<open>parseFloat\<close> is never consulted, since no example casts a text that is not an
  integer numeral into a Number field.
\<close>

definition example_runtime :: runtime where
  "example_runtime =
     \<lparr>parseFloat = (\<lambda>s. Undefined),
      newDate = (\<lambda>v. if v = Str ''2020-05-01T00:00:00.000Z''
                     then DateObj ''Fri May 01 2020 00:00:00 GMT+0000 (Coordinated Universal Time)''
                            (Some ''2020-05-01T00:00:00.000Z'')
                     else DateObj ''Invalid Date'' None)\<rparr>"

text \<open>\<^verbatim>\<open>typeRows\<close> of a row type whose fields are all texts: the parsed rows as they are.\<close>

definition example_typeRows :: "props list \<Rightarrow> props list" where
  "example_typeRows rs = rs"

definition empty_table :: ITabTable where
  "empty_table = \<lparr>table_header = [''id'', ''name''], table_rows = []\<rparr>"

definition empty_store :: WhollySheet where
  "empty_store = \<lparr>name = ''hackers'', table = empty_table, keyColumn = ''id'', rows = [], index = []\<rparr>"

text \<open>A response that \<^verbatim>\<open>createRow\<close> accepts, echoing a changed name.\<close>

definition success_response :: jsval where
  "success_response =
     Obj [(''updates'', Obj [(''updatedRanges'', Str ''hackers!A1:B1'')]), (''name'', Str ''N'')]"

definition one_row_table :: ITabTable where
  "one_row_table = \<lparr>table_header = [''id'', ''name''],
     table_rows = [[(''row'', Num 2), (''id'', Str ''x''), (''name'', Str ''old'')]]\<rparr>"

definition one_row_store :: WhollySheet where
  "one_row_store = \<lparr>name = ''hackers'', table = one_row_table, keyColumn = ''id'',
     rows = [[(''row'', Num 2), (''id'', Str ''x''), (''name'', Str ''old'')]],
     index = [(''x'', [(''row'', Num 2), (''id'', Str ''x''), (''name'', Str ''old'')])]\<rparr>"




text \<open>A store with a row whose name is the empty text.\<close>

definition unnamed_row_store :: WhollySheet where
  "unnamed_row_store = \<lparr>name = ''hackers'', table = empty_table, keyColumn = ''id'',
     rows = [[(''row'', Num 2), (''id'', Str ''x''), (''name'', Str [])]],
     index = [(''x'', [(''row'', Num 2), (''id'', Str ''x''), (''name'', Str [])])]\<rparr>"







section \<open>Decimal numerals\<close>

declare nat_digits.simps [simp del]


lemma digit_char_is_digit: "d < 10 \<Longrightarrow> is_digit (digit_char d)"
proof -
  assume "d < 10"
  then have "d \<in> {0,1,2,3,4,5,6,7,8,9}" by auto
  then show ?thesis by (auto simp: is_digit_def digit_char_def)
qed


lemma nat_digits_all: "list_all is_digit (nat_digits n)"
proof (induction n rule: nat_digits.induct)
  case (1 n)
  show ?case
  proof (cases "n < 10")
    case True
    then show ?thesis by (simp add: nat_digits.simps [of n] digit_char_is_digit)
  next
    case False
    with 1 show ?thesis by (simp add: nat_digits.simps [of n] digit_char_is_digit)
  qed
qed









lemma int_toString_small:
  "int_toString 0 = ''0''" "int_toString 1 = ''1''" "int_toString 2 = ''2''" "int_toString 3 = ''3''"
  "int_toString (- 1) = ''-1''" "int_toString (- 42) = ''-42''"
  by (simp_all add: int_toString_def nat_digits.simps [of 0] nat_digits.simps [of "Suc 0"]
      nat_digits.simps [of 2] nat_digits.simps [of 3] nat_digits.simps [of 4] nat_digits.simps [of 42]
      digit_char_def)

section \<open>Row Codec\<close>






text \<open>
  C10. When the raw value is truthy and the field's current value is neither a
  string, a number, a boolean nor a Date, \<open>typeCast\<close> returns the text of the record
  itself, \<^verbatim>\<open>this.toString()\<close>, which is \<^verbatim>\<open>[object Object]\<close>: the raw value is not
  looked at.
\<close>

theorem typeCast_unrecognized_slot:
  assumes "truthy v"
    and "js_typeof (get_prop this key) \<noteq> TString"
    and "js_typeof (get_prop this key) \<noteq> TNumber"
    and "js_typeof (get_prop this key) \<noteq> TBoolean"
    and "\<not> instanceof_Date (get_prop this key)"
  shows "typeCast rt this key v = Str (toString_this this) \<and> toString_this this = ''[object Object]''"
  using assms by (simp add: typeCast_def toString_this_def)

text \<open>The theorem at a record whose field \<^verbatim>\<open>name\<close> is unset, and at one where it is null.\<close>

theorem typeCast_unrecognized_slot_witness:
  "typeCast example_runtime [(''row'', Num 0), (''id'', Str ''x'')] ''name'' (Str ''Alice'')
     = Str ''[object Object]''
   \<and> typeCast example_runtime [(''row'', Num 0), (''id'', Str ''x''), (''name'', Null)] ''name'' (Num 7)
     = Str ''[object Object]''"
  using typeCast_unrecognized_slot [of "Str ''Alice''" "[(''row'', Num 0), (''id'', Str ''x'')]"
      "''name''" example_runtime]
    typeCast_unrecognized_slot [of "Num 7" "[(''row'', Num 0), (''id'', Str ''x''), (''name'', Null)]"
      "''name''" example_runtime]
  by (simp add: get_prop_def)

section \<open>Row Store\<close>








lemmas store_eval =
  new_WhollySheet_def checkHeader_def createIndex_def index_of_def header_def keys_def get_prop_def
  Let_def example_typeRows_def example_runtime_def empty_table_def empty_store_def one_row_table_def
  one_row_store_def success_response_def create_def update_sheet_def checkId_def values_sheet_def
  sheet_header_def createRow_def updateRow_def nextRow_def assign_def has_prop_def set_prop_def
  typeCast_def row_at_def array_index_def nonzero_led_def is_digit_def digits_value_def
  digit_value_def int_toString_small

lemma new_WhollySheet_index:
  "new_WhollySheet typeRows nm tbl keyCol = Inr s \<Longrightarrow> index s = index_of (keyColumn s) (rows s)"
  by (auto simp: new_WhollySheet_def createIndex_def Let_def split: sum.splits)

lemma mutation_index:
  "index s = index_of (keyColumn s) (rows s) \<Longrightarrow>
   index (store (create rt request s model)) =
     index_of (keyColumn (store (create rt request s model))) (rows (store (create rt request s model)))
   \<and> index (store (update_sheet rt request s model)) =
     index_of (keyColumn (store (update_sheet rt request s model)))
       (rows (store (update_sheet rt request s model)))"
  by (simp add: create_def update_sheet_def createIndex_def Let_def split: sum.splits option.splits)




text \<open>
  C5. When \<open>create\<close> or \<open>update\<close> fails, by a precondition, by the remote call or
  otherwise, the store afterwards is the store before: its rows and its index are
  the same. And a store that differs afterwards, its index rebuilt, comes with a
  request that was sent and that the service answered without an error.
\<close>

theorem failed_mutation_keeps_store:
  "(isl (result (create rt request s model)) \<longrightarrow> store (create rt request s model) = s)
   \<and> (isl (result (update_sheet rt request s model)) \<longrightarrow> store (update_sheet rt request s model) = s)
   \<and> (store (create rt request s model) \<noteq> s \<longrightarrow>
        (\<exists>call res. issued (create rt request s model) = [call] \<and> request call = Inr res))
   \<and> (store (update_sheet rt request s model) \<noteq> s \<longrightarrow>
        (\<exists>call res. issued (update_sheet rt request s model) = [call] \<and> request call = Inr res))"
proof (intro conjI)
  show "isl (result (create rt request s model)) \<longrightarrow> store (create rt request s model) = s"
    by (simp add: create_def split: sum.splits)
  show "isl (result (update_sheet rt request s model)) \<longrightarrow> store (update_sheet rt request s model) = s"
    by (simp add: update_sheet_def Let_def split: sum.splits option.splits)
  show "store (create rt request s model) \<noteq> s \<longrightarrow>
        (\<exists>call res. issued (create rt request s model) = [call] \<and> request call = Inr res)"
    by (auto simp: create_def createRow_def split: sum.splits if_splits)
  show "store (update_sheet rt request s model) \<noteq> s \<longrightarrow>
        (\<exists>call res. issued (update_sheet rt request s model) = [call] \<and> request call = Inr res)"
    by (auto simp: update_sheet_def updateRow_def Let_def split: sum.splits option.splits if_splits)
qed

text \<open>
  The theorem at a \<open>create\<close> whose record has row 5 (the precondition raises) and at an
  \<open>update\<close> whose remote call raises.
\<close>

theorem failed_mutation_keeps_store_witness:
  "result (create example_runtime (\<lambda>c. Inr success_response) one_row_store
      [(''row'', Num 5), (''id'', Str ''y''), (''name'', Str ''n'')])
     = Inl (SheetError ([CHR 0x22] @ ''y'' @ [CHR 0x22] @ '' row must be 0, not 5 to create''))
   \<and> store (create example_runtime (\<lambda>c. Inr success_response) one_row_store
      [(''row'', Num 5), (''id'', Str ''y''), (''name'', Str ''n'')]) = one_row_store
   \<and> result (update_sheet example_runtime (\<lambda>c. Inl (SheetError ''503'')) one_row_store
      [(''row'', Num 2), (''id'', Str ''x''), (''name'', Str ''changed'')])
     = Inl (SheetError ''503'')
   \<and> issued (update_sheet example_runtime (\<lambda>c. Inl (SheetError ''503'')) one_row_store
      [(''row'', Num 2), (''id'', Str ''x''), (''name'', Str ''changed'')])
     = [UpdateRow ''hackers'' (Num 2) [''x'', ''changed'']]
   \<and> store (update_sheet example_runtime (\<lambda>c. Inl (SheetError ''503'')) one_row_store
      [(''row'', Num 2), (''id'', Str ''x''), (''name'', Str ''changed'')]) = one_row_store"
proof -
  have c: "result (create example_runtime (\<lambda>c. Inr success_response) one_row_store
      [(''row'', Num 5), (''id'', Str ''y''), (''name'', Str ''n'')])
     = Inl (SheetError ([CHR 0x22] @ ''y'' @ [CHR 0x22] @ '' row must be 0, not 5 to create''))"
    by (simp add: create_def checkId_def get_prop_def one_row_store_def int_toString_def
        nat_digits.simps [of 5] digit_char_def)
  have u: "result (update_sheet example_runtime (\<lambda>c. Inl (SheetError ''503'')) one_row_store
      [(''row'', Num 2), (''id'', Str ''x''), (''name'', Str ''changed'')])
     = Inl (SheetError ''503'')"
    and i: "issued (update_sheet example_runtime (\<lambda>c. Inl (SheetError ''503'')) one_row_store
      [(''row'', Num 2), (''id'', Str ''x''), (''name'', Str ''changed'')])
     = [UpdateRow ''hackers'' (Num 2) [''x'', ''changed'']]"
    by (simp_all add: update_sheet_def checkId_def get_prop_def one_row_store_def values_sheet_def
        sheet_header_def one_row_table_def updateRow_def)
  from c u i
    failed_mutation_keeps_store [of example_runtime "\<lambda>c. Inr success_response" one_row_store
      "[(''row'', Num 5), (''id'', Str ''y''), (''name'', Str ''n'')]"]
    failed_mutation_keeps_store [of example_runtime "\<lambda>c. Inl (SheetError ''503'')" one_row_store
      "[(''row'', Num 2), (''id'', Str ''x''), (''name'', Str ''changed'')]"]
  show ?thesis by simp
qed

text \<open>
  C9. For a falsy lookup value \<open>find\<close> returns nothing, whatever the store and the
  column are: neither the index nor the rows decide the result.
\<close>

theorem find_falsy:
  assumes "\<not> truthy v"
  shows "find_sheet s v columnName = None"
  using assms by (simp add: find_sheet_def)

text \<open>
  The theorem at the four falsy values of the claim, in a store with a row whose
  name is the empty text: the scan of the rows would find that row.
\<close>

theorem find_falsy_witness:
  "find_sheet unnamed_row_store (Str []) (Some ''name'') = None
   \<and> linear_scan (rows unnamed_row_store) ''name'' (Str [])
       = Some [(''row'', Num 2), (''id'', Str ''x''), (''name'', Str [])]
   \<and> find_sheet unnamed_row_store (Num 0) None = None
   \<and> find_sheet unnamed_row_store Null (Some ''id'') = None
   \<and> find_sheet unnamed_row_store Undefined (Some ''id'') = None"
  using find_falsy [of "Str []" unnamed_row_store "Some ''name''"]
    find_falsy [of "Num 0" unnamed_row_store None]
    find_falsy [of Null unnamed_row_store "Some ''id''"]
    find_falsy [of Undefined unnamed_row_store "Some ''id''"]
  by (simp add: unnamed_row_store_def get_prop_def)

text \<open>
  C1 on the code. The store built from the table without rows; \<open>create\<close> of the
  record with key x, row 0 and name n, the service answering with a response that
  \<open>createRow\<close> accepts. The append is sent for row 0 with the values x, n, and the
  record returned carries the name of the response. The rows of the store stay
  empty, so the rebuilt index is empty: it has no entry for x.
\<close>

theorem create_on_empty_store:
  "new_WhollySheet example_typeRows ''hackers'' empty_table ''id'' = Inr empty_store
   \<and> create example_runtime (\<lambda>c. Inr success_response) empty_store
        [(''row'', Num 0), (''id'', Str ''x''), (''name'', Str ''n'')]
     = \<lparr>issued = [AppendRow ''hackers'' (Num 0) [''x'', ''n'']],
        result = Inr [(''row'', Num 0), (''id'', Str ''x''), (''name'', Str ''N'')],
        store = empty_store\<rparr>
   \<and> rows empty_store = []
   \<and> map_of (index empty_store) ''x'' = None"
  by (simp add: store_eval)

text \<open>
  C2 on the code. The store with one row, whose remote position is 2; \<open>update\<close> of
  the record with that key, row 2 and a changed name. The update is sent for row 2
  with the values x, changed. Then \<^verbatim>\<open>this.rows[2]\<close> is read: the list has one
  element, at position 0, so the call raises TypeError and the store is as before,
  its row still named old.
\<close>

theorem update_on_one_row_store:
  "new_WhollySheet example_typeRows ''hackers'' one_row_table ''id'' = Inr one_row_store
   \<and> update_sheet example_runtime (\<lambda>c. Inr (Arr [Str ''x'', Str ''changed''])) one_row_store
        [(''row'', Num 2), (''id'', Str ''x''), (''name'', Str ''changed'')]
     = \<lparr>issued = [UpdateRow ''hackers'' (Num 2) [''x'', ''changed'']],
        result = Inl (TypeError ''Cannot read properties of undefined (reading assign)''),
        store = one_row_store\<rparr>
   \<and> rows one_row_store = [[(''row'', Num 2), (''id'', Str ''x''), (''name'', Str ''old'')]]"
  by (simp add: store_eval)

text \<open>
  C8 on the code. \<open>update\<close> of a record with its key set and row -1: the
  precondition does not raise, and the update is sent to the service for row -1.
\<close>

theorem update_with_negative_row:
  "issued (update_sheet example_runtime (\<lambda>c. Inr (Arr [Str ''x'', Str ''changed''])) one_row_store
        [(''row'', Num (- 1)), (''id'', Str ''x''), (''name'', Str ''changed'')])
     = [UpdateRow ''hackers'' (Num (- 1)) [''x'', ''changed'']]
   \<and> result (update_sheet example_runtime (\<lambda>c. Inr (Arr [Str ''x'', Str ''changed''])) one_row_store
        [(''row'', Num (- 1)), (''id'', Str ''x''), (''name'', Str ''changed'')])
     = Inl (TypeError ''Cannot read properties of undefined (reading assign)'')"
  by (simp add: store_eval)

text \<open>
  The precondition checks, for a record with its key set. \<open>create\<close> raises, and sends
  nothing, when the row is not the Number 0. \<open>update\<close> raises, and sends nothing, when
  the row is falsy; for any truthy row, a negative one too, it goes on and sends
  the update for that row.
\<close>

theorem precondition_checks:
  assumes "truthy (get_prop model (keyColumn s))"
  shows "(\<not> strict_eq (get_prop model ''row'') (Num 0) \<longrightarrow>
            issued (create rt request s model) = []
          \<and> (\<exists>msg. result (create rt request s model) = Inl (SheetError msg)))
       \<and> (\<not> truthy (get_prop model ''row'') \<longrightarrow>
            issued (update_sheet rt request s model) = []
          \<and> (\<exists>msg. result (update_sheet rt request s model) = Inl (SheetError msg)))
       \<and> (truthy (get_prop model ''row'') \<and> values_sheet s model = Inr vals \<longrightarrow>
            issued (update_sheet rt request s model)
              = [UpdateRow (name s) (get_prop model ''row'') vals])"
  using assms
  by (simp add: create_def update_sheet_def checkId_def Let_def split: sum.splits option.splits)

text \<open>The theorem at records with the rows 5, 0 and 2.\<close>

theorem precondition_checks_witness:
  "issued (create example_runtime (\<lambda>c. Inr success_response) one_row_store
      [(''row'', Num 5), (''id'', Str ''y''), (''name'', Str ''n'')]) = []
   \<and> issued (update_sheet example_runtime (\<lambda>c. Inr success_response) one_row_store
      [(''row'', Num 0), (''id'', Str ''y''), (''name'', Str ''n'')]) = []
   \<and> issued (update_sheet example_runtime (\<lambda>c. Inr success_response) one_row_store
      [(''row'', Num 2), (''id'', Str ''y''), (''name'', Str ''n'')])
     = [UpdateRow ''hackers'' (Num 2) [''y'', ''n'']]"
  using
    precondition_checks [of "[(''row'', Num 5), (''id'', Str ''y''), (''name'', Str ''n'')]"
      one_row_store example_runtime "\<lambda>c. Inr success_response" "[''y'', ''n'']"]
    precondition_checks [of "[(''row'', Num 0), (''id'', Str ''y''), (''name'', Str ''n'')]"
      one_row_store example_runtime "\<lambda>c. Inr success_response" "[''y'', ''n'']"]
    precondition_checks [of "[(''row'', Num 2), (''id'', Str ''y''), (''name'', Str ''n'')]"
      one_row_store example_runtime "\<lambda>c. Inr success_response" "[''y'', ''n'']"]
  by (simp add: get_prop_def one_row_store_def one_row_table_def values_sheet_def sheet_header_def)

section \<open>Tab Indexer\<close>




















end
